theory Spec2Isabelle
  imports Main
begin

unbundle bit_operations_syntax

section \<open>Python values used by the plugin\<close>

text \<open>
  A Python \<open>str\<close> is a sequence of Unicode code points, and \<open>len\<close> counts code points.
  A code point is a natural number below \<open>0x110000\<close>; lone surrogates are legal members
  of a \<open>str\<close>. String literals of the source are written \<open>ustr ''...''\<close>.
\<close>

type_synonym pystr = "nat list"

definition ustr :: "string \<Rightarrow> pystr" where
  "ustr s = map of_char s"

definition valid_str :: "pystr \<Rightarrow> bool" where
  "valid_str s = list_all (\<lambda>c. c < 0x110000) s"

text \<open>Truthiness of an \<open>Optional[str]\<close>: \<open>None\<close> and \<open>""\<close> are false.\<close>

definition truthy :: "pystr option \<Rightarrow> bool" where
  "truthy v = (case v of None \<Rightarrow> False | Some s \<Rightarrow> s \<noteq> [])"

text \<open>\<open>d.get(k, default)\<close> on a dictionary.\<close>

definition dict_get :: "('k \<rightharpoonup> 'v) \<Rightarrow> 'k \<Rightarrow> 'v \<Rightarrow> 'v" where
  "dict_get d k dflt = (case d k of None \<Rightarrow> dflt | Some v \<Rightarrow> v)"

section \<open>Collaborators: connection records, errors, warnings, HTTP calls\<close>

text \<open>
  The connection record of the orchestration platform, as far as the plugin reads it:
  the \<open>password\<close> attribute (absent or \<open>None\<close> is \<open>None\<close>) and \<open>extra_dejson\<close>, the
  decoded extra field. The values of the extra keys are taken at the type the source
  annotates for what it returns from them, \<open>str\<close>.
\<close>

record connection =
  password :: "pystr option"
  extra_dejson :: "pystr \<rightharpoonup> pystr"

text \<open>
  \<open>AirflowNotFoundException\<close> is the not-found kind, \<open>AirflowException\<close> itself the
  validation kind; \<open>ExternalError\<close> stands for whatever else a collaborator (the
  connection lookup, the HTTP transport) raises.
\<close>

datatype error =
    AirflowException string
  | AirflowNotFoundException string
  | ExternalError string

fun is_not_found :: "error \<Rightarrow> bool" where
  "is_not_found (AirflowNotFoundException m) = True"
| "is_not_found e = False"

fun is_validation :: "error \<Rightarrow> bool" where
  "is_validation (AirflowException m) = True"
| "is_validation e = False"

datatype warning = Warning string

text \<open>One invocation of \<open>HttpHook.run\<close>: the hook's method and the three keyword arguments.\<close>

record http_call =
  call_method :: pystr
  call_endpoint :: "pystr option"
  call_data :: pystr
  call_headers :: "(pystr \<times> pystr) list"

type_synonym lookup = "pystr option \<Rightarrow> error + connection"
type_synonym transport = "http_call \<Rightarrow> error option"

section \<open>json.dumps on the payload dictionary\<close>

text \<open>
  The payload is a \<open>dict\<close> from \<open>str\<close> to \<open>str\<close> or \<open>bool\<close>; a dictionary keeps insertion
  order, which is the order \<open>json.dumps\<close> writes.
\<close>

datatype pyval = PyStr pystr | PyBool bool

type_synonym pydict = "(pystr \<times> pyval) list"

fun dict_setitem :: "pydict \<Rightarrow> pystr \<Rightarrow> pyval \<Rightarrow> pydict" where
  "dict_setitem [] k v = [(k, v)]"
| "dict_setitem ((k', v') # d) k v =
     (if k' = k then (k', v) # d else (k', v') # dict_setitem d k v)"

text \<open>\<open>'{0:04x}'.format(n)\<close>: lower-case hexadecimal, padded with zeros to four digits.\<close>

definition hexdigit :: "nat \<Rightarrow> nat" where
  "hexdigit d = (if d < 10 then 48 + d else 87 + d)"

fun hex_digits :: "nat \<Rightarrow> pystr" where
  "hex_digits n = (if n < 16 then [hexdigit n] else hex_digits (n div 16) @ [hexdigit (n mod 16)])"

declare hex_digits.simps [simp del]

definition format_04x :: "nat \<Rightarrow> pystr" where
  "format_04x n = (let ds = hex_digits n in replicate (4 - length ds) 48 @ ds)"

text \<open>
  \<open>ESCAPE_DCT\<close> of \<open>json.encoder\<close>: the seven named escapes, and \<open>\u00XX\<close> for every
  other code point below \<open>0x20\<close>.
\<close>

definition ESCAPE_DCT :: "nat \<Rightarrow> pystr option" where
  "ESCAPE_DCT c =
     (if c = 92 then Some [92, 92]
      else if c = 34 then Some [92, 34]
      else if c = 8 then Some [92, 98]
      else if c = 12 then Some [92, 102]
      else if c = 10 then Some [92, 110]
      else if c = 13 then Some [92, 114]
      else if c = 9 then Some [92, 116]
      else if c < 32 then Some ([92, 117] @ format_04x c)
      else None)"

text \<open>
  The \<open>replace\<close> callback of \<open>py_encode_basestring_ascii\<close>: a code point of the basic
  plane becomes \<open>\uXXXX\<close>, one beyond it a surrogate pair.
\<close>

definition replace :: "nat \<Rightarrow> pystr" where
  "replace c =
     (case ESCAPE_DCT c of
        Some e \<Rightarrow> e
      | None \<Rightarrow>
          if c < 0x10000 then [92, 117] @ format_04x c
          else
            let n = c - 0x10000;
                s1 = 0xd800 OR (drop_bit 10 n AND 0x3ff);
                s2 = 0xdc00 OR (n AND 0x3ff)
            in [92, 117] @ format_04x s1 @ [92, 117] @ format_04x s2)"

text \<open>\<open>ESCAPE_ASCII\<close>: a backslash, a double quote, or anything outside space .. tilde.\<close>

definition ESCAPE_ASCII :: "nat \<Rightarrow> bool" where
  "ESCAPE_ASCII c = (c = 92 \<or> c = 34 \<or> \<not> (32 \<le> c \<and> c \<le> 126))"

definition escape_chars :: "pystr \<Rightarrow> pystr" where
  "escape_chars s = concat (map (\<lambda>c. if ESCAPE_ASCII c then replace c else [c]) s)"

definition py_encode_basestring_ascii :: "pystr \<Rightarrow> pystr" where
  "py_encode_basestring_ascii s = [34] @ escape_chars s @ [34]"

fun encode_value :: "pyval \<Rightarrow> pystr" where
  "encode_value (PyStr s) = py_encode_basestring_ascii s"
| "encode_value (PyBool b) = (if b then ustr ''true'' else ustr ''false'')"

text \<open>Members are joined by the item separator \<open>", "\<close>, key and value by \<open>": "\<close>.\<close>

fun encode_items :: "pydict \<Rightarrow> pystr" where
  "encode_items [] = []"
| "encode_items [(k, v)] = py_encode_basestring_ascii k @ ustr '': '' @ encode_value v"
| "encode_items ((k, v) # kv # d) =
     py_encode_basestring_ascii k @ ustr '': '' @ encode_value v @ ustr '', ''
       @ encode_items (kv # d)"

definition json_dumps :: "pydict \<Rightarrow> pystr" where
  "json_dumps d = ustr ''{'' @ encode_items d @ ustr ''}''"

section \<open>DiscordBotWebhookHook\<close>

record hook =
  http_method :: pystr
  http_conn_id :: "pystr option"
  token :: pystr
  endpoint :: "pystr option"
  message :: pystr
  tts :: bool

text \<open>
  \<open>_get_token\<close>: the connection is looked up first; an error of the lookup propagates.
  The result carries the warnings emitted.
\<close>

definition get_token :: "lookup \<Rightarrow> pystr option \<Rightarrow> warning list \<times> (error + pystr)" where
  "get_token get_connection conn_id =
     (case get_connection conn_id of
        Inl e \<Rightarrow> ([], Inl e)
      | Inr conn \<Rightarrow>
          let otherwise =
            (if truthy conn_id then
               let extra = extra_dejson conn;
                   bot_token = dict_get extra (ustr ''bot_token'') []
               in ((if bot_token \<noteq> []
                    then [Warning '''password' field is more recommended than 'bot_token' in 'extra'.'']
                    else []),
                   Inr bot_token)
             else
               ([], Inl (AirflowNotFoundException
                     ''Cannot get token: No valid token nor http_conn_id supplied.'')))
          in case password conn of
               Some p \<Rightarrow> if p \<noteq> [] then ([], Inr p) else otherwise
             | None \<Rightarrow> otherwise)"

text \<open>
  \<open>_get_endpoint\<close>: \<open>Inr None\<close> is the implicit \<open>return None\<close> when the function falls
  off its end.
\<close>

definition channel_path :: "pystr \<Rightarrow> pystr" where
  "channel_path channel = ustr ''channels/'' @ channel @ ustr ''/messages''"

definition get_endpoint :: "lookup \<Rightarrow> pystr option \<Rightarrow> pystr \<Rightarrow> error + pystr option" where
  "get_endpoint get_connection conn_id channel =
     (case get_connection conn_id of
        Inl e \<Rightarrow> Inl e
      | Inr conn \<Rightarrow>
          if channel \<noteq> [] then Inr (Some (channel_path channel))
          else if truthy conn_id then
            let extra = extra_dejson conn;
                channel = dict_get extra (ustr ''channel'') []
            in if channel \<noteq> [] then Inr (Some (channel_path channel))
               else
                 let endpoint = dict_get extra (ustr ''endpoint'') []
                 in if endpoint \<noteq> [] then Inr (Some endpoint) else Inr None
          else
            Inl (AirflowNotFoundException
                  ''Cannot get token: No valid channel_id nor http_conn_id supplied.''))"

text \<open>
  \<open>__init__\<close>: the token is resolved before the endpoint, and both before the message is
  stored. \<open>mth\<close> is the \<open>method\<close> the base class keeps.
\<close>

definition DiscordBotWebhookHook_init ::
    "lookup \<Rightarrow> pystr \<Rightarrow> pystr option \<Rightarrow> pystr \<Rightarrow> pystr \<Rightarrow> bool \<Rightarrow> warning list \<times> (error + hook)" where
  "DiscordBotWebhookHook_init get_connection mth conn_id msg channel t =
     (case get_token get_connection conn_id of
        (ws, Inl e) \<Rightarrow> (ws, Inl e)
      | (ws, Inr tok) \<Rightarrow>
          (case get_endpoint get_connection conn_id channel of
             Inl e \<Rightarrow> (ws, Inl e)
           | Inr ep \<Rightarrow>
               (ws, Inr \<lparr>http_method = mth, http_conn_id = conn_id, token = tok,
                         endpoint = ep, message = msg, tts = t\<rparr>)))"

definition build_payload :: "hook \<Rightarrow> pystr \<Rightarrow> error + pystr" where
  "build_payload self msg =
     (if length msg \<le> 2000 then
        let payload = dict_setitem [] (ustr ''content'') (PyStr msg);
            payload = dict_setitem payload (ustr ''tts'') (PyBool (tts self))
        in Inr (json_dumps payload)
      else Inl (AirflowException ''Discord message length must be 2000 or fewer characters.''))"

text \<open>
  \<open>execute\<close>: the result carries the list of calls made to the transport, in order.
\<close>

definition execute :: "transport \<Rightarrow> hook \<Rightarrow> http_call list \<times> (error + unit)" where
  "execute run self =
     (case build_payload self (message self) of
        Inl e \<Rightarrow> ([], Inl e)
      | Inr discord_payload \<Rightarrow>
          let call = \<lparr>call_method = http_method self,
                      call_endpoint = endpoint self,
                      call_data = discord_payload,
                      call_headers =
                        [(ustr ''Content-type'', ustr ''application/json''),
                         (ustr ''Authorization'', ustr ''Bot '' @ token self)]\<rparr>
          in ([call], case run call of None \<Rightarrow> Inr () | Some e \<Rightarrow> Inl e))"

section \<open>DiscordBotOperator\<close>

record operator =
  op_http_conn_id :: "pystr option"
  op_message :: pystr
  op_channel :: pystr
  op_tts :: bool

text \<open>The operator passes no \<open>method\<close>, so the hook keeps the base class's default.\<close>

definition HttpHook_default_method :: pystr where
  "HttpHook_default_method = ustr ''POST''"

definition DiscordBotOperator_execute ::
    "lookup \<Rightarrow> transport \<Rightarrow> operator \<Rightarrow> warning list \<times> http_call list \<times> (error + unit)" where
  "DiscordBotOperator_execute get_connection run self =
     (case DiscordBotWebhookHook_init get_connection HttpHook_default_method
             (op_http_conn_id self) (op_message self) (op_channel self) (op_tts self) of
        (ws, Inl e) \<Rightarrow> (ws, [], Inl e)
      | (ws, Inr h) \<Rightarrow> (ws, execute run h))"

section \<open>Length validation\<close>

text \<open>
  C3. A hook whose message is longer than 2000 code points fails in \<open>execute\<close> with the
  validation error, and the transport is not called: the list of calls is empty.
\<close>

theorem execute_too_long:
  assumes "length (message self) > 2000"
  shows "execute run self =
           ([], Inl (AirflowException ''Discord message length must be 2000 or fewer characters.''))"
  using assms by (simp add: execute_def build_payload_def)

theorem execute_too_long_witness:
  "length (message \<lparr>http_method = ustr ''POST'', http_conn_id = Some (ustr ''discord_default''),
                     token = ustr ''T1'', endpoint = Some (ustr ''channels/123/messages''),
                     message = replicate 2001 97, tts = False\<rparr>) > 2000
   \<and> execute (\<lambda>c. None)
        \<lparr>http_method = ustr ''POST'', http_conn_id = Some (ustr ''discord_default''),
         token = ustr ''T1'', endpoint = Some (ustr ''channels/123/messages''),
         message = replicate 2001 97, tts = False\<rparr>
      = ([], Inl (AirflowException ''Discord message length must be 2000 or fewer characters.''))"
  using execute_too_long [of "\<lparr>http_method = ustr ''POST'', http_conn_id = Some (ustr ''discord_default''),
         token = ustr ''T1'', endpoint = Some (ustr ''channels/123/messages''),
         message = replicate 2001 97, tts = False\<rparr>" "\<lambda>c. None"]
  by simp

section \<open>Token resolution\<close>

text \<open>
  C1. Token resolution follows a strict precedence. Where the lookup returns a connection:
  a non-empty \<open>password\<close> is the token, whatever \<open>bot_token\<close> the extra field holds;
  otherwise, with a connection identifier, the token is the \<open>bot_token\<close> key of the
  extra field (the empty string when the key is missing); and with no connection
  identifier, where the lookup reports not-found or returns a record without a secret,
  resolution fails with the not-found error.
\<close>

theorem get_token_precedence:
  "(get_connection conn_id = Inr conn \<and> password conn = Some p \<and> p \<noteq> []
      \<longrightarrow> get_token get_connection conn_id = ([], Inr p))
   \<and> (get_connection conn_id = Inr conn \<and> \<not> truthy (password conn) \<and> truthy conn_id
      \<longrightarrow> snd (get_token get_connection conn_id)
            = Inr (dict_get (extra_dejson conn) (ustr ''bot_token'') []))
   \<and> (\<not> truthy conn_id
        \<and> (case get_connection conn_id of Inl e \<Rightarrow> is_not_found e
            | Inr conn \<Rightarrow> \<not> truthy (password conn))
      \<longrightarrow> (\<exists>e. get_token get_connection conn_id = ([], Inl e) \<and> is_not_found e))"
proof (intro conjI impI)
  assume "get_connection conn_id = Inr conn \<and> password conn = Some p \<and> p \<noteq> []"
  then show "get_token get_connection conn_id = ([], Inr p)"
    by (simp add: get_token_def Let_def)
next
  assume "get_connection conn_id = Inr conn \<and> \<not> truthy (password conn) \<and> truthy conn_id"
  then show "snd (get_token get_connection conn_id)
            = Inr (dict_get (extra_dejson conn) (ustr ''bot_token'') [])"
    by (auto simp: get_token_def truthy_def Let_def split: option.splits)
next
  assume "\<not> truthy conn_id
        \<and> (case get_connection conn_id of Inl e \<Rightarrow> is_not_found e
            | Inr conn \<Rightarrow> \<not> truthy (password conn))"
  then show "\<exists>e. get_token get_connection conn_id = ([], Inl e) \<and> is_not_found e"
    by (auto simp: get_token_def truthy_def Let_def split: sum.splits option.splits)
qed

theorem get_token_precedence_witness:
  "get_token (\<lambda>i. Inr \<lparr>password = Some (ustr ''T1''),
                        extra_dejson = [ustr ''bot_token'' \<mapsto> ustr ''T2'']\<rparr>)
       (Some (ustr ''discord_default'')) = ([], Inr (ustr ''T1''))
   \<and> snd (get_token (\<lambda>i. Inr \<lparr>password = None,
                        extra_dejson = [ustr ''bot_token'' \<mapsto> ustr ''T2'']\<rparr>)
       (Some (ustr ''discord_default''))) = Inr (ustr ''T2'')
   \<and> (\<exists>e. get_token (\<lambda>i. Inr \<lparr>password = None,
                        extra_dejson = [ustr ''bot_token'' \<mapsto> ustr ''T2'']\<rparr>) None
            = ([], Inl e) \<and> is_not_found e)"
  using get_token_precedence [where get_connection = "\<lambda>i. Inr \<lparr>password = Some (ustr ''T1''),
                        extra_dejson = [ustr ''bot_token'' \<mapsto> ustr ''T2'']\<rparr>"
          and conn_id = "Some (ustr ''discord_default'')" and conn = "\<lparr>password = Some (ustr ''T1''),
                        extra_dejson = [ustr ''bot_token'' \<mapsto> ustr ''T2'']\<rparr>" and p = "ustr ''T1''"]
        get_token_precedence [where get_connection = "\<lambda>i. Inr \<lparr>password = None,
                        extra_dejson = [ustr ''bot_token'' \<mapsto> ustr ''T2'']\<rparr>"
          and conn_id = "Some (ustr ''discord_default'')" and conn = "\<lparr>password = None,
                        extra_dejson = [ustr ''bot_token'' \<mapsto> ustr ''T2'']\<rparr>"]
        get_token_precedence [where get_connection = "\<lambda>i. Inr \<lparr>password = None,
                        extra_dejson = [ustr ''bot_token'' \<mapsto> ustr ''T2'']\<rparr>" and conn_id = None]
  by (simp add: truthy_def dict_get_def ustr_def)

text \<open>
  C7. A connection with an identifier, no secret (none, or an empty one) and a non-empty
  \<open>bot_token\<close> in its extra field: the token is that \<open>bot_token\<close>, and exactly one warning
  is emitted.
\<close>

theorem get_token_bot_token_fallback:
  assumes "get_connection conn_id = Inr conn"
    and "truthy conn_id"
    and "\<not> truthy (password conn)"
    and "extra_dejson conn (ustr ''bot_token'') = Some t"
    and "t \<noteq> []"
  shows "get_token get_connection conn_id
           = ([Warning '''password' field is more recommended than 'bot_token' in 'extra'.''],
              Inr t)"
  using assms
  by (auto simp: get_token_def truthy_def dict_get_def Let_def split: option.splits)

theorem get_token_bot_token_fallback_witness:
  "get_token (\<lambda>i. Inr \<lparr>password = None, extra_dejson = [ustr ''bot_token'' \<mapsto> ustr ''T2'']\<rparr>)
     (Some (ustr ''discord_default''))
   = ([Warning '''password' field is more recommended than 'bot_token' in 'extra'.''],
      Inr (ustr ''T2''))"
  using get_token_bot_token_fallback
    [where get_connection = "\<lambda>i. Inr \<lparr>password = None,
                                          extra_dejson = [ustr ''bot_token'' \<mapsto> ustr ''T2'']\<rparr>"
       and conn_id = "Some (ustr ''discord_default'')"
       and conn = "\<lparr>password = None, extra_dejson = [ustr ''bot_token'' \<mapsto> ustr ''T2'']\<rparr>"
       and t = "ustr ''T2''"]
  by (simp add: truthy_def ustr_def)

text \<open>
  C9. A connection with an identifier and neither a non-empty secret nor a non-empty
  \<open>bot_token\<close>: the token is the empty string, no error is raised and no warning is
  emitted; and when the endpoint resolves and the message passes validation, the one
  request made has the header \<open>Authorization: Bot \<close> with nothing after the space.
\<close>

theorem get_token_empty:
  assumes "get_connection conn_id = Inr conn"
    and "truthy conn_id"
    and "\<not> truthy (password conn)"
    and "\<not> truthy (extra_dejson conn (ustr ''bot_token''))"
  shows "get_token get_connection conn_id = ([], Inr [])
       \<and> (\<forall>ep. get_endpoint get_connection conn_id channel = Inr ep \<and> length msg \<le> 2000
             \<longrightarrow> map call_headers
                   (fst (snd (DiscordBotOperator_execute get_connection run
                      \<lparr>op_http_conn_id = conn_id, op_message = msg,
                        op_channel = channel, op_tts = t\<rparr>)))
                 = [[(ustr ''Content-type'', ustr ''application/json''),
                     (ustr ''Authorization'', ustr ''Bot '')]])"
proof -
  have tok: "get_token get_connection conn_id = ([], Inr [])"
    using assms
    by (auto simp: get_token_def truthy_def dict_get_def Let_def split: option.splits)
  then show ?thesis
    by (simp add: DiscordBotOperator_execute_def DiscordBotWebhookHook_init_def
        execute_def build_payload_def Let_def)
qed

theorem get_token_empty_witness:
  "get_token (\<lambda>i. Inr \<lparr>password = None, extra_dejson = Map.empty\<rparr>)
      (Some (ustr ''discord_default'')) = ([], Inr [])
   \<and> map call_headers
        (fst (snd (DiscordBotOperator_execute
           (\<lambda>i. Inr \<lparr>password = None, extra_dejson = Map.empty\<rparr>) (\<lambda>c. None)
           \<lparr>op_http_conn_id = Some (ustr ''discord_default''), op_message = ustr ''hi'',
             op_channel = ustr ''123'', op_tts = False\<rparr>)))
      = [[(ustr ''Content-type'', ustr ''application/json''),
          (ustr ''Authorization'', ustr ''Bot '')]]"
proof -
  let ?gc = "\<lambda>i::pystr option. (Inr \<lparr>password = None, extra_dejson = Map.empty\<rparr> :: error + connection)"
  have ep: "get_endpoint ?gc (Some (ustr ''discord_default'')) (ustr ''123'')
              = Inr (Some (channel_path (ustr ''123'')))"
    by (simp add: get_endpoint_def ustr_def)
  have len: "length (ustr ''hi'') \<le> 2000"
    by (simp add: ustr_def)
  show ?thesis
    using get_token_empty
      [where get_connection = ?gc and conn_id = "Some (ustr ''discord_default'')"
         and conn = "\<lparr>password = None, extra_dejson = Map.empty\<rparr>"
         and channel = "ustr ''123''" and msg = "ustr ''hi''" and run = "\<lambda>c. None" and t = False]
      ep len
    by (simp add: truthy_def ustr_def)
qed

section \<open>Endpoint resolution\<close>

text \<open>
  C2. With a non-empty explicit channel and a connection returned by the lookup, the
  endpoint is \<open>channels/{channel}/messages\<close>, whatever the extra field holds.
\<close>

theorem get_endpoint_explicit_channel:
  assumes "get_connection conn_id = Inr conn"
    and "channel \<noteq> []"
  shows "get_endpoint get_connection conn_id channel
           = Inr (Some (ustr ''channels/'' @ channel @ ustr ''/messages''))"
  using assms by (simp add: get_endpoint_def channel_path_def)

theorem get_endpoint_explicit_channel_witness:
  "get_endpoint
     (\<lambda>i. Inr \<lparr>password = Some (ustr ''T1''),
                extra_dejson = [ustr ''channel'' \<mapsto> ustr ''77'',
                                ustr ''endpoint'' \<mapsto> ustr ''webhooks/1'']\<rparr>)
     (Some (ustr ''discord_default'')) (ustr ''123'')
   = Inr (Some (ustr ''channels/123/messages''))"
  using get_endpoint_explicit_channel
    [where get_connection = "\<lambda>i. Inr \<lparr>password = Some (ustr ''T1''),
                extra_dejson = [ustr ''channel'' \<mapsto> ustr ''77'',
                                ustr ''endpoint'' \<mapsto> ustr ''webhooks/1'']\<rparr>"
       and conn_id = "Some (ustr ''discord_default'')" and channel = "ustr ''123''"]
  by (simp add: ustr_def)

text \<open>
  C6. With a connection identifier, no explicit channel, and an extra field with
  neither a \<open>channel\<close> nor an \<open>endpoint\<close> key, endpoint resolution raises nothing and
  returns \<open>None\<close>.
\<close>

theorem get_endpoint_falls_off:
  assumes "get_connection conn_id = Inr conn"
    and "truthy conn_id"
    and "extra_dejson conn (ustr ''channel'') = None"
    and "extra_dejson conn (ustr ''endpoint'') = None"
  shows "get_endpoint get_connection conn_id [] = Inr None"
  using assms by (simp add: get_endpoint_def dict_get_def Let_def)

theorem get_endpoint_falls_off_witness:
  "get_endpoint (\<lambda>i. Inr \<lparr>password = Some (ustr ''T1''), extra_dejson = Map.empty\<rparr>)
     (Some (ustr ''discord_default'')) [] = Inr None"
  using get_endpoint_falls_off
    [where get_connection = "\<lambda>i. Inr \<lparr>password = Some (ustr ''T1''), extra_dejson = Map.empty\<rparr>"
       and conn_id = "Some (ustr ''discord_default'')"
       and conn = "\<lparr>password = Some (ustr ''T1''), extra_dejson = Map.empty\<rparr>"]
  by (simp add: truthy_def ustr_def)

text \<open>
  C10. An empty explicit channel counts as absent: the endpoint comes from the
  \<open>channel\<close> key of the extra field, else from its \<open>endpoint\<close> key, and without a
  connection identifier resolution fails with the not-found error. An error of either
  resolver is raised while the hook is constructed, so the operator reports it also
  for a message longer than 2000 code points, and not the validation error.
\<close>

theorem empty_channel_is_absent:
  "(get_connection conn_id = Inr conn \<and> truthy conn_id
      \<and> extra_dejson conn (ustr ''channel'') = Some c \<and> c \<noteq> []
      \<longrightarrow> get_endpoint get_connection conn_id []
            = Inr (Some (ustr ''channels/'' @ c @ ustr ''/messages'')))
   \<and> (get_connection conn_id = Inr conn \<and> truthy conn_id
      \<and> \<not> truthy (extra_dejson conn (ustr ''channel''))
      \<and> extra_dejson conn (ustr ''endpoint'') = Some ep \<and> ep \<noteq> []
      \<longrightarrow> get_endpoint get_connection conn_id [] = Inr (Some ep))
   \<and> (\<not> truthy conn_id \<and> get_connection conn_id = Inr conn
      \<longrightarrow> get_endpoint get_connection conn_id [] = Inl (AirflowNotFoundException
                  ''Cannot get token: No valid channel_id nor http_conn_id supplied.''))
   \<and> (length msg > 2000
      \<and> (snd (get_token get_connection conn_id) = Inl e
          \<or> (\<exists>tok. snd (get_token get_connection conn_id) = Inr tok)
             \<and> get_endpoint get_connection conn_id channel = Inl e)
      \<longrightarrow> snd (DiscordBotOperator_execute get_connection run
                 \<lparr>op_http_conn_id = conn_id, op_message = msg,
                   op_channel = channel, op_tts = t\<rparr>) = ([], Inl e))"
proof (intro conjI impI)
  assume "get_connection conn_id = Inr conn \<and> truthy conn_id
      \<and> extra_dejson conn (ustr ''channel'') = Some c \<and> c \<noteq> []"
  then show "get_endpoint get_connection conn_id []
            = Inr (Some (ustr ''channels/'' @ c @ ustr ''/messages''))"
    by (simp add: get_endpoint_def dict_get_def channel_path_def Let_def)
next
  assume "get_connection conn_id = Inr conn \<and> truthy conn_id
      \<and> \<not> truthy (extra_dejson conn (ustr ''channel''))
      \<and> extra_dejson conn (ustr ''endpoint'') = Some ep \<and> ep \<noteq> []"
  then show "get_endpoint get_connection conn_id [] = Inr (Some ep)"
    by (auto simp: get_endpoint_def dict_get_def truthy_def Let_def split: option.splits)
next
  assume "\<not> truthy conn_id \<and> get_connection conn_id = Inr conn"
  then show "get_endpoint get_connection conn_id [] = Inl (AirflowNotFoundException
                  ''Cannot get token: No valid channel_id nor http_conn_id supplied.'')"
    by (simp add: get_endpoint_def)
next
  assume a: "length msg > 2000
      \<and> (snd (get_token get_connection conn_id) = Inl e
          \<or> (\<exists>tok. snd (get_token get_connection conn_id) = Inr tok)
             \<and> get_endpoint get_connection conn_id channel = Inl e)"
  obtain ws r where g: "get_token get_connection conn_id = (ws, r)"
    by (cases "get_token get_connection conn_id")
  from a g show "snd (DiscordBotOperator_execute get_connection run
                 \<lparr>op_http_conn_id = conn_id, op_message = msg,
                   op_channel = channel, op_tts = t\<rparr>) = ([], Inl e)"
    by (auto simp: DiscordBotOperator_execute_def DiscordBotWebhookHook_init_def)
qed

theorem empty_channel_is_absent_witness:
  "get_endpoint (\<lambda>i. Inr \<lparr>password = Some (ustr ''T1''),
                           extra_dejson = [ustr ''channel'' \<mapsto> ustr ''77'',
                                           ustr ''endpoint'' \<mapsto> ustr ''webhooks/1'']\<rparr>)
      (Some (ustr ''discord_default'')) []
     = Inr (Some (ustr ''channels/77/messages''))
   \<and> get_endpoint (\<lambda>i. Inr \<lparr>password = Some (ustr ''T1''),
                           extra_dejson = [ustr ''endpoint'' \<mapsto> ustr ''webhooks/1'']\<rparr>)
      (Some (ustr ''discord_default'')) []
     = Inr (Some (ustr ''webhooks/1''))
   \<and> get_endpoint (\<lambda>i. Inr \<lparr>password = Some (ustr ''T1''), extra_dejson = Map.empty\<rparr>) None []
     = Inl (AirflowNotFoundException
              ''Cannot get token: No valid channel_id nor http_conn_id supplied.'')
   \<and> snd (DiscordBotOperator_execute
            (\<lambda>i. Inr \<lparr>password = Some (ustr ''T1''), extra_dejson = Map.empty\<rparr>) (\<lambda>c. None)
            \<lparr>op_http_conn_id = None, op_message = replicate 2001 97,
              op_channel = [], op_tts = False\<rparr>)
     = ([], Inl (AirflowNotFoundException
              ''Cannot get token: No valid channel_id nor http_conn_id supplied.''))"
proof -
  let ?c1 = "\<lparr>password = Some (ustr ''T1''),
              extra_dejson = [ustr ''channel'' \<mapsto> ustr ''77'',
                              ustr ''endpoint'' \<mapsto> ustr ''webhooks/1'']\<rparr>"
  let ?c2 = "\<lparr>password = Some (ustr ''T1''),
              extra_dejson = [ustr ''endpoint'' \<mapsto> ustr ''webhooks/1'']\<rparr>"
  let ?c3 = "\<lparr>password = Some (ustr ''T1''), extra_dejson = Map.empty\<rparr>"
  let ?nf = "AirflowNotFoundException
              ''Cannot get token: No valid channel_id nor http_conn_id supplied.''"
  have tok: "snd (get_token (\<lambda>i. Inr ?c3) None) = Inr (ustr ''T1'')"
    by (simp add: get_token_def ustr_def)
  have ep: "get_endpoint (\<lambda>i. Inr ?c3) None [] = Inl ?nf"
    by (simp add: get_endpoint_def truthy_def)
  show ?thesis
    using empty_channel_is_absent
        [where get_connection = "\<lambda>i. Inr ?c1" and conn_id = "Some (ustr ''discord_default'')"
           and conn = ?c1 and c = "ustr ''77''"]
      empty_channel_is_absent
        [where get_connection = "\<lambda>i. Inr ?c2" and conn_id = "Some (ustr ''discord_default'')"
           and conn = ?c2 and ep = "ustr ''webhooks/1''"]
      empty_channel_is_absent
        [where get_connection = "\<lambda>i. Inr ?c3" and conn_id = None and conn = ?c3
           and msg = "replicate 2001 97" and e = ?nf and channel = "[]"
           and run = "\<lambda>c. None" and t = False]
      tok ep
    by (simp add: truthy_def ustr_def)
qed

section \<open>No connection identifier\<close>

text \<open>
  C5. With no connection identifier, no explicit channel and no secret (the lookup
  reports not-found, or returns a record without a secret), both resolvers fail with
  the not-found error, and the operator fails with it before any call to the transport.
\<close>

theorem no_conn_id_not_found:
  assumes "\<not> truthy conn_id"
    and "case get_connection conn_id of
           Inl e \<Rightarrow> is_not_found e
         | Inr conn \<Rightarrow> \<not> truthy (password conn)"
  shows "(\<exists>e. get_token get_connection conn_id = ([], Inl e) \<and> is_not_found e)
       \<and> (\<exists>e. get_endpoint get_connection conn_id [] = Inl e \<and> is_not_found e)
       \<and> (\<exists>e. DiscordBotOperator_execute get_connection run
                  \<lparr>op_http_conn_id = conn_id, op_message = msg, op_channel = [], op_tts = t\<rparr>
                = ([], [], Inl e) \<and> is_not_found e)"
proof -
  have tok: "\<exists>e. get_token get_connection conn_id = ([], Inl e) \<and> is_not_found e"
    using assms by (auto simp: get_token_def truthy_def Let_def split: sum.splits option.splits)
  have ep: "\<exists>e. get_endpoint get_connection conn_id [] = Inl e \<and> is_not_found e"
    using assms by (auto simp: get_endpoint_def split: sum.splits)
  from tok obtain e where "get_token get_connection conn_id = ([], Inl e)" "is_not_found e"
    by blast
  then have "DiscordBotOperator_execute get_connection run
                  \<lparr>op_http_conn_id = conn_id, op_message = msg, op_channel = [], op_tts = t\<rparr>
                = ([], [], Inl e) \<and> is_not_found e"
    by (simp add: DiscordBotOperator_execute_def DiscordBotWebhookHook_init_def)
  with tok ep show ?thesis by blast
qed

theorem no_conn_id_not_found_witness:
  "(\<exists>e. get_token (\<lambda>i. Inr \<lparr>password = None, extra_dejson = Map.empty\<rparr>) None = ([], Inl e)
        \<and> is_not_found e)
   \<and> (\<exists>e. get_endpoint (\<lambda>i. Inr \<lparr>password = None, extra_dejson = Map.empty\<rparr>) None [] = Inl e
        \<and> is_not_found e)
   \<and> (\<exists>e. DiscordBotOperator_execute (\<lambda>i. Inr \<lparr>password = None, extra_dejson = Map.empty\<rparr>)
              (\<lambda>c. None)
              \<lparr>op_http_conn_id = None, op_message = ustr ''hi'', op_channel = [], op_tts = False\<rparr>
            = ([], [], Inl e) \<and> is_not_found e)"
  using no_conn_id_not_found
    [where conn_id = None
       and get_connection = "\<lambda>i. Inr \<lparr>password = None, extra_dejson = Map.empty\<rparr>"
       and run = "\<lambda>c. None" and msg = "ustr ''hi''" and t = False]
  by (simp add: truthy_def)

end
